theory Spec2Isabelle
  imports Main "HOL-Library.Word" "HOL-Library.Sublist"
begin

unbundle bit_operations_syntax

section \<open>JavaScript values used by the repository\<close>

text \<open>
  A JavaScript string is a sequence of UTF-16 code units; \<open>.length\<close> counts code
  units. A \<open>Uint8Array\<close> is a sequence of bytes. String literals of the source are
  written \<open>js ''...''\<close>.
\<close>

type_synonym jsstring = "16 word list"
type_synonym bytes = "8 word list"

definition js :: "string \<Rightarrow> jsstring" where
  "js s = map (\<lambda>c. of_nat (of_char c)) s"

text \<open>
  Truthiness of an optional string (\<open>undefined\<close> is \<open>None\<close>): \<open>undefined\<close> and the
  empty string are falsy.
\<close>

definition truthy :: "jsstring option \<Rightarrow> bool" where
  "truthy v = (case v of None \<Rightarrow> False | Some s \<Rightarrow> s \<noteq> [])"

text \<open>\<open>xs[i]\<close>: \<open>undefined\<close> when the index is out of range.\<close>

definition at :: "'a list \<Rightarrow> nat \<Rightarrow> 'a option" where
  "at xs i = (if i < length xs then Some (xs ! i) else None)"

text \<open>
  An integer number inside a template literal: decimal digits, with a minus sign
  when negative (numbers below \<open>10^21\<close> in magnitude, which covers sizes, counts
  and epoch seconds).
\<close>

fun digits :: "nat \<Rightarrow> jsstring" where
  "digits n = (if n < 10 then [of_nat (48 + n)]
               else digits (n div 10) @ [of_nat (48 + n mod 10)])"

definition showNum :: "int \<Rightarrow> jsstring" where
  "showNum n = (if n < 0 then js ''-'' @ digits (nat (- n)) else digits (nat n))"

text \<open>
  \<open>new TextEncoder().encode(s)\<close>: UTF-8, a surrogate pair giving one four-byte
  sequence and a lone surrogate the replacement character U+FFFD.
\<close>

definition utf8 :: "nat \<Rightarrow> bytes" where
  "utf8 cp =
     (if cp < 0x80 then [of_nat cp]
      else if cp < 0x800 then [of_nat (0xC0 + cp div 64), of_nat (0x80 + cp mod 64)]
      else if cp < 0x10000 then
        [of_nat (0xE0 + cp div 4096), of_nat (0x80 + (cp div 64) mod 64),
         of_nat (0x80 + cp mod 64)]
      else
        [of_nat (0xF0 + cp div 262144), of_nat (0x80 + (cp div 4096) mod 64),
         of_nat (0x80 + (cp div 64) mod 64), of_nat (0x80 + cp mod 64)])"

definition isHigh :: "16 word \<Rightarrow> bool" where
  "isHigh c = (0xD800 \<le> unat c \<and> unat c < 0xDC00)"

definition isLow :: "16 word \<Rightarrow> bool" where
  "isLow c = (0xDC00 \<le> unat c \<and> unat c < 0xE000)"

definition scalar :: "16 word \<Rightarrow> nat" where
  "scalar c = (if isHigh c \<or> isLow c then 0xFFFD else unat c)"

fun textEncode :: "jsstring \<Rightarrow> bytes" where
  "textEncode [] = []"
| "textEncode [c] = utf8 (scalar c)"
| "textEncode (c # d # cs) =
     (if isHigh c \<and> isLow d
      then utf8 (0x10000 + (unat c - 0xD800) * 1024 + (unat d - 0xDC00)) @ textEncode cs
      else utf8 (scalar c) @ textEncode (d # cs))"

text \<open>A rejected promise or a thrown \<open>Error\<close>, with its message.\<close>

datatype error = Error jsstring

section \<open>rpm-metadata.ts\<close>

record Dependency =
  dep_name :: jsstring
  dep_version :: "jsstring option"
  dep_flags :: "jsstring option"

text \<open>
  \<open>PackageMetadata\<close> is the interface of repo-metadata.ts; \<open>RpmMetadata\<close> of
  rpm-metadata.ts has the same fields and four more. \<open>buildTime\<close> is held as the
  value of \<open>new Date(buildTime).getTime()\<close>, milliseconds since the epoch, which is
  the same for the \<open>Date\<close> and for the ISO string it becomes in the store. The nested
  objects \<open>size\<close> and \<open>checksum\<close> are flattened.
\<close>

record PackageMetadata =
  name :: jsstring
  version :: jsstring
  release :: jsstring
  arch :: jsstring
  summary :: jsstring
  description :: jsstring
  packager :: jsstring
  buildTime :: int
  size_package :: int
  size_installed :: int
  checksum_type :: jsstring
  checksum_value :: jsstring
  filename :: jsstring
  license :: jsstring
  vendor :: jsstring
  dependencies :: "Dependency list option"

record 'd RpmMetadata = PackageMetadata +
  os :: jsstring
  platform :: jsstring
  url :: jsstring
  digest :: 'd

text \<open>
  What \<open>parseRpmPackage\<close> returns, as far as \<open>extractRpmMetadata\<close> reads it: the
  info fields and the three dependency tags, each \<open>undefined\<close> (\<open>None\<close>) when the
  header has no such tag.
\<close>

record 'd RpmPackage =
  pkg_name :: jsstring
  pkg_version :: jsstring
  pkg_release :: jsstring
  pkg_arch :: jsstring
  pkg_summery :: jsstring
  pkg_description :: jsstring
  pkg_vendor :: jsstring
  pkg_license :: jsstring
  pkg_packager :: jsstring
  pkg_os :: jsstring
  pkg_platform :: jsstring
  pkg_size :: int
  pkg_buildTime :: int
  pkg_digest :: 'd
  get_RequireName :: "jsstring list option"
  get_RequireVersion :: "jsstring list option"
  get_RequireFlags :: "int list option"

definition flagMap :: "int \<Rightarrow> jsstring option" where
  "flagMap = map_of
     [(2, js ''LT''), (4, js ''GT''), (8, js ''EQ''), (10, js ''LE''), (12, js ''GE'')]"

text \<open>
  \<open>pkg.get(tag) || []\<close>; on an optional string, its value (the empty string when
  \<open>undefined\<close>).
\<close>

definition orEmpty :: "'a list option \<Rightarrow> 'a list" where
  "orEmpty v = (case v of None \<Rightarrow> [] | Some xs \<Rightarrow> xs)"

text \<open>
  The callback of \<open>requireNames.map\<close>. \<open>flagNum & 0x0F\<close> works on the 32-bit two's
  complement of the number, whose low four bits are those of the integer.
\<close>

definition dependencyEntry :: "jsstring list \<Rightarrow> int list \<Rightarrow> jsstring \<Rightarrow> nat \<Rightarrow> Dependency" where
  "dependencyEntry requireVersions requireFlags nm i =
     (let dep = \<lparr>dep_name = nm, dep_version = None, dep_flags = None\<rparr>;
          version = at requireVersions i;
          flagNum = at requireFlags i;
          dep = (if truthy version \<and> length (orEmpty version) > 0
                 then dep\<lparr>dep_version := version\<rparr> else dep);
          dep = (case flagNum of
                   None \<Rightarrow> dep
                 | Some n \<Rightarrow>
                     if n \<noteq> 0
                     then (let comparisonBits = n AND 0x0F
                           in if truthy (flagMap comparisonBits)
                              then dep\<lparr>dep_flags := flagMap comparisonBits\<rparr>
                              else dep)
                     else dep)
      in dep)"

definition extractDependencies :: "'d RpmPackage \<Rightarrow> Dependency list" where
  "extractDependencies pkg =
     (let requireNames = orEmpty (get_RequireName pkg);
          requireVersions = orEmpty (get_RequireVersion pkg);
          requireFlags = orEmpty (get_RequireFlags pkg)
      in map (\<lambda>(i, nm). dependencyEntry requireVersions requireFlags nm i)
           (enumerate 0 requireNames))"

text \<open>
  \<open>extractRpmMetadata\<close>, given the outcomes of its two concurrent fetches: the
  parsed header (\<open>headerPromise\<close>) and the checksum with the declared content
  length (\<open>hashAndSizePromise\<close>). \<open>Promise.all\<close> rejects when either does, with
  the error of the promise that rejects first: when both reject,
  \<open>hashRejectsFirst\<close> says which of the two that was.
\<close>

definition extractRpmMetadata ::
  "error + 'd RpmPackage \<Rightarrow> error + jsstring \<times> int \<Rightarrow> bool \<Rightarrow> jsstring \<Rightarrow> jsstring
     \<Rightarrow> error + 'd RpmMetadata" where
  "extractRpmMetadata headerPromise hashAndSizePromise hashRejectsFirst rpmUrl fname =
     (case headerPromise of
        Inl e \<Rightarrow>
          (case hashAndSizePromise of
             Inl e' \<Rightarrow> if hashRejectsFirst then Inl e' else Inl e
           | Inr _ \<Rightarrow> Inl e)
      | Inr pkg \<Rightarrow>
          (case hashAndSizePromise of
             Inl e \<Rightarrow> Inl e
           | Inr (sha256Checksum, packageSize) \<Rightarrow>
               Inr \<lparr>name = pkg_name pkg,
                    version = pkg_version pkg,
                    release = pkg_release pkg,
                    arch = pkg_arch pkg,
                    summary = pkg_summery pkg,
                    description = pkg_description pkg,
                    packager = pkg_packager pkg,
                    buildTime = pkg_buildTime pkg,
                    size_package = packageSize,
                    size_installed = pkg_size pkg,
                    checksum_type = js ''sha256'',
                    checksum_value = sha256Checksum,
                    filename = fname,
                    license = pkg_license pkg,
                    vendor = pkg_vendor pkg,
                    dependencies = Some (extractDependencies pkg),
                    os = pkg_os pkg,
                    platform = pkg_platform pkg,
                    url = rpmUrl,
                    digest = pkg_digest pkg\<rparr>))"

section \<open>repo-metadata.ts\<close>

record MetadataFileInfo =
  info_checksum :: jsstring
  info_checksumGz :: jsstring
  info_size :: nat
  info_sizeGz :: nat

text \<open>
  One of the entries \<open>primary\<close>, \<open>filelists\<close>, \<open>other\<close> of \<open>RepoMetadata\<close>; the
  field \<open>size\<close> is written \<open>size'\<close>.
\<close>

record MetadataFile =
  xml :: jsstring
  gz :: bytes
  checksum :: jsstring
  openChecksum :: jsstring
  size' :: nat
  openSize :: nat

record RepoMetadata =
  repomd_xml :: jsstring
  primary :: MetadataFile
  filelists :: MetadataFile
  other :: MetadataFile

text \<open>
  The platform the generator runs on: \<open>crypto.subtle.digest('SHA-256', _)\<close>,
  \<open>CompressionStream('gzip')\<close> as functions of the bytes they are given, and the
  wall clock \<open>Date.now()\<close>.
\<close>

record Runtime =
  digestSHA256 :: "bytes \<Rightarrow> bytes"
  gzip :: "bytes \<Rightarrow> bytes"
  now :: int

text \<open>An argument of type \<open>string | Uint8Array\<close>.\<close>

datatype data = Str jsstring | Buf bytes

definition toBuffer :: "data \<Rightarrow> bytes" where
  "toBuffer d = (case d of Str s \<Rightarrow> textEncode s | Buf b \<Rightarrow> b)"

text \<open>\<open>str.replace(/c/g, r)\<close> for a one-character pattern.\<close>

definition replaceAll :: "16 word \<Rightarrow> jsstring \<Rightarrow> jsstring \<Rightarrow> jsstring" where
  "replaceAll c r str = concat (map (\<lambda>x. if x = c then r else [x]) str)"

text \<open>The characters \<open>&\<close>, \<open><\<close>, \<open>>\<close>, double quote and single quote are 0x26, 0x3C, 0x3E, 0x22 and 0x27.\<close>

definition escapeXml :: "jsstring \<Rightarrow> jsstring" where
  "escapeXml str =
     (if str = [] then []
      else replaceAll 0x27 (js ''&apos;'')
            (replaceAll 0x22 (js ''&quot;'')
              (replaceAll 0x3E (js ''&gt;'')
                (replaceAll 0x3C (js ''&lt;'')
                  (replaceAll 0x26 (js ''&amp;'') str)))))"

text \<open>\<open>b.toString(16).padStart(2, '0')\<close>\<close>

definition hexDigit :: "nat \<Rightarrow> 16 word" where
  "hexDigit n = (if n < 10 then of_nat (48 + n) else of_nat (87 + n))"

definition hexByte :: "8 word \<Rightarrow> jsstring" where
  "hexByte b = [hexDigit (unat b div 16), hexDigit (unat b mod 16)]"

definition calculateSha256 :: "Runtime \<Rightarrow> data \<Rightarrow> jsstring" where
  "calculateSha256 rt d =
     (let buffer = toBuffer d;
          hashArray = digestSHA256 rt buffer
      in concat (map hexByte hashArray))"

definition gzipCompress :: "Runtime \<Rightarrow> data \<Rightarrow> bytes" where
  "gzipCompress rt d = (let buffer = toBuffer d in gzip rt buffer)"

subsection \<open>primary.xml\<close>

text \<open>The text one iteration of the package loop appends, up to the \<open>time\<close> element.\<close>

definition primaryBeforeTime :: "'a PackageMetadata_scheme \<Rightarrow> jsstring" where
  \<open>primaryBeforeTime pkg =
     js ''  <package type="rpm">\<newline>''
     @ js ''    <name>'' @ escapeXml (name pkg) @ js ''</name>\<newline>''
     @ js ''    <arch>'' @ escapeXml (arch pkg) @ js ''</arch>\<newline>''
     @ js ''    <version epoch="0" ver="'' @ escapeXml (version pkg)
       @ js ''" rel="'' @ escapeXml (release pkg) @ js ''"/>\<newline>''
     @ js ''    <checksum type="'' @ checksum_type pkg @ js ''" pkgid="YES">''
       @ checksum_value pkg @ js ''</checksum>\<newline>''
     @ js ''    <summary>'' @ escapeXml (summary pkg) @ js ''</summary>\<newline>''
     @ js ''    <description>'' @ escapeXml (description pkg) @ js ''</description>\<newline>''
     @ js ''    <packager>'' @ escapeXml (packager pkg) @ js ''</packager>\<newline>''
     @ js ''    <url></url>\<newline>''\<close>

definition primaryTime :: "int \<Rightarrow> 'a PackageMetadata_scheme \<Rightarrow> jsstring" where
  \<open>primaryTime timestamp pkg =
     js ''    <time file="'' @ showNum timestamp
     @ js ''" build="'' @ showNum (buildTime pkg div 1000) @ js ''"/>\<newline>''\<close>

definition requiresEntry :: "Dependency \<Rightarrow> jsstring" where
  \<open>requiresEntry dep =
     (let depName = escapeXml (dep_name dep);
          flags = (if truthy (dep_flags dep)
                   then js '' flags="'' @ escapeXml (orEmpty (dep_flags dep)) @ js ''"''
                   else []);
          version = (if truthy (dep_version dep)
                     then js '' ver="'' @ escapeXml (orEmpty (dep_version dep)) @ js ''"''
                     else [])
      in js ''        <rpm:entry name="'' @ depName @ js ''"'' @ flags @ version
         @ js ''/>\<newline>'')\<close>

definition requiresXml :: "Dependency list option \<Rightarrow> jsstring" where
  \<open>requiresXml deps =
     (case deps of
        None \<Rightarrow> []
      | Some ds \<Rightarrow>
          if length ds > 0
          then js ''      <rpm:requires>\<newline>''
               @ foldl (\<lambda>x dep. x @ requiresEntry dep) [] ds
               @ js ''      </rpm:requires>\<newline>''
          else [])\<close>

text \<open>The rest of the iteration, after the \<open>time\<close> element.\<close>

definition primaryAfterTime :: "'a PackageMetadata_scheme \<Rightarrow> jsstring" where
  \<open>primaryAfterTime pkg =
     js ''    <size package="'' @ showNum (size_package pkg)
       @ js ''" installed="'' @ showNum (size_installed pkg) @ js ''" archive="0"/>\<newline>''
     @ js ''    <location href="'' @ escapeXml (filename pkg) @ js ''"/>\<newline>''
     @ js ''    <format>\<newline>''
     @ js ''      <rpm:license>'' @ escapeXml (license pkg) @ js ''</rpm:license>\<newline>''
     @ js ''      <rpm:vendor>'' @ escapeXml (vendor pkg) @ js ''</rpm:vendor>\<newline>''
     @ js ''      <rpm:buildhost></rpm:buildhost>\<newline>''
     @ js ''      <rpm:header-range start="0" end="0"/>\<newline>''
     @ js ''      <rpm:provides>\<newline>''
     @ js ''        <rpm:entry name="'' @ escapeXml (name pkg)
       @ js ''" flags="EQ" epoch="0" ver="'' @ escapeXml (version pkg)
       @ js ''" rel="'' @ escapeXml (release pkg) @ js ''"/>\<newline>''
     @ js ''        <rpm:entry name="'' @ escapeXml (name pkg) @ js ''('' @ escapeXml (arch pkg)
       @ js '')" flags="EQ" epoch="0" ver="'' @ escapeXml (version pkg)
       @ js ''" rel="'' @ escapeXml (release pkg) @ js ''"/>\<newline>''
     @ js ''      </rpm:provides>\<newline>''
     @ requiresXml (dependencies pkg)
     @ js ''    </format>\<newline>''
     @ js ''  </package>\<newline>''\<close>

definition generatePrimaryXml :: "'a PackageMetadata_scheme list \<Rightarrow> int \<Rightarrow> jsstring" where
  \<open>generatePrimaryXml packages timestamp =
     (let x = js ''<?xml version="1.0" encoding="UTF-8"?>\<newline>'';
          x = x @ js ''<metadata xmlns="http://linux.duke.edu/metadata/common" xmlns:rpm="http://linux.duke.edu/metadata/rpm" packages="''
                @ showNum (int (length packages)) @ js ''">\<newline>'';
          x = foldl (\<lambda>x pkg. x @ primaryBeforeTime pkg @ primaryTime timestamp pkg
                                  @ primaryAfterTime pkg) x packages
      in x @ js ''</metadata>\<newline>'')\<close>

subsection \<open>filelists.xml and other.xml\<close>

text \<open>Both loops append the same text for a package.\<close>

definition packageStub :: "'a PackageMetadata_scheme \<Rightarrow> jsstring" where
  \<open>packageStub pkg =
     js ''  <package pkgid="'' @ checksum_value pkg @ js ''" name="'' @ escapeXml (name pkg)
       @ js ''" arch="'' @ escapeXml (arch pkg) @ js ''">\<newline>''
     @ js ''    <version epoch="0" ver="'' @ escapeXml (version pkg)
       @ js ''" rel="'' @ escapeXml (release pkg) @ js ''"/>\<newline>''
     @ js ''  </package>\<newline>''\<close>

definition generateFilelistsXml :: "'a PackageMetadata_scheme list \<Rightarrow> jsstring" where
  \<open>generateFilelistsXml packages =
     (let x = js ''<?xml version="1.0" encoding="UTF-8"?>\<newline>'';
          x = x @ js ''<filelists xmlns="http://linux.duke.edu/metadata/filelists" packages="''
                @ showNum (int (length packages)) @ js ''">\<newline>'';
          x = foldl (\<lambda>x pkg. x @ packageStub pkg) x packages
      in x @ js ''</filelists>\<newline>'')\<close>

definition generateOtherXml :: "'a PackageMetadata_scheme list \<Rightarrow> jsstring" where
  \<open>generateOtherXml packages =
     (let x = js ''<?xml version="1.0" encoding="UTF-8"?>\<newline>'';
          x = x @ js ''<otherdata xmlns="http://linux.duke.edu/metadata/other" packages="''
                @ showNum (int (length packages)) @ js ''">\<newline>'';
          x = foldl (\<lambda>x pkg. x @ packageStub pkg) x packages
      in x @ js ''</otherdata>\<newline>'')\<close>

subsection \<open>repomd.xml\<close>

definition repomdHead :: "int \<Rightarrow> jsstring" where
  \<open>repomdHead timestamp =
     js ''<?xml version="1.0" encoding="UTF-8"?>\<newline>''
     @ js ''<repomd xmlns="http://linux.duke.edu/metadata/repo" xmlns:rpm="http://linux.duke.edu/metadata/rpm">\<newline>''
     @ js ''  <revision>'' @ showNum timestamp @ js ''</revision>\<newline>''\<close>

definition generateRepomdXml ::
  "int \<Rightarrow> MetadataFileInfo \<Rightarrow> MetadataFileInfo \<Rightarrow> MetadataFileInfo \<Rightarrow> jsstring" where
  \<open>generateRepomdXml timestamp primaryInfo filelistsInfo otherInfo =
     repomdHead timestamp
     @ js ''  <data type="primary">\<newline>''
     @ js ''    <checksum type="sha256">'' @ info_checksumGz primaryInfo @ js ''</checksum>\<newline>''
     @ js ''    <open-checksum type="sha256">'' @ info_checksum primaryInfo
       @ js ''</open-checksum>\<newline>''
     @ js ''    <location href="repodata/primary.xml.gz"/>\<newline>''
     @ js ''    <timestamp>'' @ showNum timestamp @ js ''</timestamp>\<newline>''
     @ js ''    <size>'' @ showNum (int (info_sizeGz primaryInfo)) @ js ''</size>\<newline>''
     @ js ''    <open-size>'' @ showNum (int (info_size primaryInfo)) @ js ''</open-size>\<newline>''
     @ js ''  </data>\<newline>''
     @ js ''  <data type="filelists">\<newline>''
     @ js ''    <checksum type="sha256">'' @ info_checksumGz filelistsInfo @ js ''</checksum>\<newline>''
     @ js ''    <open-checksum type="sha256">'' @ info_checksum filelistsInfo
       @ js ''</open-checksum>\<newline>''
     @ js ''    <location href="repodata/filelists.xml.gz"/>\<newline>''
     @ js ''    <timestamp>'' @ showNum timestamp @ js ''</timestamp>\<newline>''
     @ js ''    <size>'' @ showNum (int (info_sizeGz filelistsInfo)) @ js ''</size>\<newline>''
     @ js ''    <open-size>'' @ showNum (int (info_size filelistsInfo)) @ js ''</open-size>\<newline>''
     @ js ''  </data>\<newline>''
     @ js ''  <data type="other">\<newline>''
     @ js ''    <checksum type="sha256">'' @ info_checksumGz otherInfo @ js ''</checksum>\<newline>''
     @ js ''    <open-checksum type="sha256">'' @ info_checksum otherInfo
       @ js ''</open-checksum>\<newline>''
     @ js ''    <location href="repodata/other.xml.gz"/>\<newline>''
     @ js ''    <timestamp>'' @ showNum timestamp @ js ''</timestamp>\<newline>''
     @ js ''    <size>'' @ showNum (int (info_sizeGz otherInfo)) @ js ''</size>\<newline>''
     @ js ''    <open-size>'' @ showNum (int (info_size otherInfo)) @ js ''</open-size>\<newline>''
     @ js ''  </data>\<newline>''
     @ js ''</repomd>\<newline>''\<close>

subsection \<open>The bundle\<close>

text \<open>The constant \<open>timestamp\<close> of \<open>generateRepoMetadata\<close>.\<close>

definition buildTimestamp :: "'a PackageMetadata_scheme list \<Rightarrow> int" where
  "buildTimestamp packages =
     (if length packages > 0 then buildTime (packages ! 0) div 1000 else 0)"

definition generateRepoMetadata :: "Runtime \<Rightarrow> 'a PackageMetadata_scheme list \<Rightarrow> RepoMetadata" where
  "generateRepoMetadata rt packages =
     (let timestamp = buildTimestamp packages;
          primaryXml = generatePrimaryXml packages timestamp;
          filelistsXml = generateFilelistsXml packages;
          otherXml = generateOtherXml packages;
          primaryGz = gzipCompress rt (Str primaryXml);
          filelistsGz = gzipCompress rt (Str filelistsXml);
          otherGz = gzipCompress rt (Str otherXml);
          primaryChecksum = calculateSha256 rt (Str primaryXml);
          primaryChecksumGz = calculateSha256 rt (Buf primaryGz);
          filelistsChecksum = calculateSha256 rt (Str filelistsXml);
          filelistsChecksumGz = calculateSha256 rt (Buf filelistsGz);
          otherChecksum = calculateSha256 rt (Str otherXml);
          otherChecksumGz = calculateSha256 rt (Buf otherGz);
          repomdXml = generateRepomdXml timestamp
            \<lparr>info_checksum = primaryChecksum, info_checksumGz = primaryChecksumGz,
             info_size = length primaryXml, info_sizeGz = length primaryGz\<rparr>
            \<lparr>info_checksum = filelistsChecksum, info_checksumGz = filelistsChecksumGz,
             info_size = length filelistsXml, info_sizeGz = length filelistsGz\<rparr>
            \<lparr>info_checksum = otherChecksum, info_checksumGz = otherChecksumGz,
             info_size = length otherXml, info_sizeGz = length otherGz\<rparr>
      in \<lparr>repomd_xml = repomdXml,
          primary = \<lparr>xml = primaryXml, gz = primaryGz, checksum = primaryChecksumGz,
                     openChecksum = primaryChecksum, size' = length primaryGz,
                     openSize = length primaryXml\<rparr>,
          filelists = \<lparr>xml = filelistsXml, gz = filelistsGz, checksum = filelistsChecksumGz,
                       openChecksum = filelistsChecksum, size' = length filelistsGz,
                       openSize = length filelistsXml\<rparr>,
          other = \<lparr>xml = otherXml, gz = otherGz, checksum = otherChecksumGz,
                   openChecksum = otherChecksum, size' = length otherGz,
                   openSize = length otherXml\<rparr>\<rparr>)"

section \<open>The key-value namespace\<close>

text \<open>
  A \<open>KVNamespace\<close> maps string keys to JSON text. The model keeps, for each key, the
  value the text decodes to (\<open>kv.get(key, 'json')\<close> after
  \<open>kv.put(key, JSON.stringify(v))\<close> gives \<open>v\<close> back), and counts the writes.
\<close>

record 'v KVNamespace =
  entries :: "jsstring \<Rightarrow> 'v option"
  putCount :: nat

text \<open>A namespace with no keys, never written.\<close>

definition emptyKV :: "'v KVNamespace" where
  "emptyKV = \<lparr>entries = Map.empty, putCount = 0\<rparr>"

definition kv_get :: "'v KVNamespace \<Rightarrow> jsstring \<Rightarrow> 'v option" where
  "kv_get kv key = entries kv key"

definition kv_put :: "'v KVNamespace \<Rightarrow> jsstring \<Rightarrow> 'v \<Rightarrow> 'v KVNamespace" where
  "kv_put kv key v = kv\<lparr>entries := (entries kv)(key \<mapsto> v), putCount := Suc (putCount kv)\<rparr>"

definition kv_delete :: "'v KVNamespace \<Rightarrow> jsstring \<Rightarrow> 'v KVNamespace" where
  "kv_delete kv key = kv\<lparr>entries := (entries kv)(key := None)\<rparr>"

text \<open>
  A provider, as far as the managers read it without effects; what its
  \<open>fetchLatestVersion()\<close> gives is an argument of the operation that awaits it.
\<close>

record Provider =
  getName :: jsstring

section \<open>metadata-manager.ts\<close>

definition getMetadataKey :: "Provider \<Rightarrow> jsstring \<Rightarrow> jsstring \<Rightarrow> jsstring" where
  "getMetadataKey provider ver rel = getName provider @ js '':metadata:'' @ ver @ js ''-'' @ rel"

definition hasMetadata :: "Provider \<Rightarrow> 'm KVNamespace \<Rightarrow> jsstring \<Rightarrow> jsstring \<Rightarrow> bool" where
  "hasMetadata provider kv ver rel =
     (let key = getMetadataKey provider ver rel;
          data = kv_get kv key
      in data \<noteq> None)"

definition getMetadata :: "Provider \<Rightarrow> 'm KVNamespace \<Rightarrow> jsstring \<Rightarrow> jsstring \<Rightarrow> 'm option" where
  "getMetadata provider kv ver rel =
     (let key = getMetadataKey provider ver rel in kv_get kv key)"

text \<open>
  \<open>extractAndStore\<close>, given the outcome of \<open>extractRpmMetadata\<close>: a failed extraction
  is rethrown before the store is touched.
\<close>

definition extractAndStore ::
  "Provider \<Rightarrow> 'm KVNamespace \<Rightarrow> jsstring \<Rightarrow> jsstring \<Rightarrow> error + 'm
     \<Rightarrow> (error + unit) \<times> 'm KVNamespace" where
  "extractAndStore provider kv ver rel extracted =
     (case extracted of
        Inl e \<Rightarrow> (Inl e, kv)
      | Inr metadata \<Rightarrow>
          (let key = getMetadataKey provider ver rel
           in (Inr (), kv_put kv key metadata)))"

text \<open>
  The elements of \<open>versions\<close> are the pairs \<open>(version, release)\<close>. \<open>Promise.all\<close> gives
  the results in the order of the promises.
\<close>

definition getAllMetadata :: "Provider \<Rightarrow> 'm KVNamespace \<Rightarrow> (jsstring \<times> jsstring) list \<Rightarrow> 'm list" where
  "getAllMetadata provider kv vs =
     (let metadataPromises = map (\<lambda>(ver, rel). getMetadata provider kv ver rel) vs;
          results = metadataPromises
      in map the (filter (\<lambda>metadata. metadata \<noteq> None) results))"

definition deleteMetadata :: "Provider \<Rightarrow> 'm KVNamespace \<Rightarrow> jsstring \<Rightarrow> jsstring \<Rightarrow> 'm KVNamespace" where
  "deleteMetadata provider kv ver rel =
     (let key = getMetadataKey provider ver rel in kv_delete kv key)"

section \<open>version-discovery.ts\<close>

text \<open>
  \<open>ProviderVersionInfo\<close> is \<open>VersionInfo\<close> of providers/base.ts, the type of
  \<open>Omit<VersionInfo, 'added'>\<close>; \<open>VersionInfo\<close> of version-discovery.ts adds \<open>added\<close>.
\<close>

record ProviderVersionInfo =
  vi_version :: jsstring
  vi_release :: jsstring
  vi_url :: jsstring
  vi_filename :: jsstring

record VersionInfo = ProviderVersionInfo +
  vi_added :: jsstring

record VersionIndex =
  versions :: "VersionInfo list"
  updated :: "jsstring option"

definition indexKey :: "Provider \<Rightarrow> jsstring" where
  "indexKey provider = getName provider @ js '':version-index''"

definition getIndex :: "Provider \<Rightarrow> VersionIndex KVNamespace \<Rightarrow> VersionIndex" where
  "getIndex provider kv =
     (case kv_get kv (indexKey provider) of
        Some data \<Rightarrow> data
      | None \<Rightarrow> \<lparr>versions = [], updated = None\<rparr>)"

definition saveIndex :: "Provider \<Rightarrow> VersionIndex KVNamespace \<Rightarrow> VersionIndex \<Rightarrow> VersionIndex KVNamespace" where
  "saveIndex provider kv index = kv_put kv (indexKey provider) index"

text \<open>The template \<open>`${v.version}-${v.release}`\<close>.\<close>

definition versionKey :: "'a ProviderVersionInfo_scheme \<Rightarrow> jsstring" where
  "versionKey v = vi_version v @ js ''-'' @ vi_release v"

text \<open>The object \<open>{ ...latest, added: t }\<close>.\<close>

definition withAdded :: "ProviderVersionInfo \<Rightarrow> jsstring \<Rightarrow> VersionInfo" where
  "withAdded latest t =
     \<lparr>vi_version = vi_version latest, vi_release = vi_release latest,
      vi_url = vi_url latest, vi_filename = vi_filename latest, vi_added = t\<rparr>"

text \<open>
  \<open>checkAndUpdate\<close>, given what \<open>fetchLatestVersion()\<close> gives (\<open>Inl\<close> when it throws)
  and the two readings \<open>new Date().toISOString()\<close> of the clock. The result is the
  returned boolean, or the error thrown, with the namespace after the call.
\<close>

definition checkAndUpdate ::
  "Provider \<Rightarrow> error + ProviderVersionInfo \<Rightarrow> jsstring \<Rightarrow> jsstring \<Rightarrow> VersionIndex KVNamespace
     \<Rightarrow> (error + bool) \<times> VersionIndex KVNamespace" where
  "checkAndUpdate provider fetched now1 now2 kv =
     (case fetched of
        Inl e \<Rightarrow> (Inl e, kv)
      | Inr latest \<Rightarrow>
          (let index = getIndex provider kv;
               key = versionKey latest;
               exists = list_ex (\<lambda>v. versionKey v = key) (versions index)
           in if exists then (Inr False, kv)
              else
                (let newVersion = withAdded latest now1;
                     index = index\<lparr>versions := newVersion # versions index\<rparr>;
                     index = index\<lparr>updated := Some now2\<rparr>
                 in (Inr True, saveIndex provider kv index))))"

definition getLatest :: "Provider \<Rightarrow> VersionIndex KVNamespace \<Rightarrow> VersionInfo option" where
  "getLatest provider kv = (let index = getIndex provider kv in at (versions index) 0)"

definition getAllVersions :: "Provider \<Rightarrow> VersionIndex KVNamespace \<Rightarrow> VersionInfo list" where
  "getAllVersions provider kv = (let index = getIndex provider kv in versions index)"

section \<open>Values for evaluation\<close>

text \<open>The provider of providers/cursor.ts, whose \<open>getName()\<close> returns \<open>'cursor'\<close>.\<close>

definition cursor :: Provider where
  "cursor = \<lparr>getName = js ''cursor''\<rparr>"

text \<open>The releases and the time stamp used by test/version-discovery.test.js.\<close>

definition release_1_0_0 :: ProviderVersionInfo where
  "release_1_0_0 =
     \<lparr>vi_version = js ''1.0.0'', vi_release = js ''1000000000'',
      vi_url = js ''https://example.com/old.rpm'',
      vi_filename = js ''cursor-1.0.0-1000000000.el8.x86_64.rpm''\<rparr>"

definition release_1_7_27 :: ProviderVersionInfo where
  "release_1_7_27 =
     \<lparr>vi_version = js ''1.7.27'', vi_release = js ''1759000000'',
      vi_url = js ''https://example.com/old.rpm'',
      vi_filename = js ''cursor-1.7.27-1759000000.el8.x86_64.rpm''\<rparr>"

definition release_1_7_28 :: ProviderVersionInfo where
  "release_1_7_28 =
     \<lparr>vi_version = js ''1.7.28'', vi_release = js ''1759287435'',
      vi_url = js ''https://example.com/new.rpm'',
      vi_filename = js ''cursor-1.7.28-1759287435.el8.x86_64.rpm''\<rparr>"

definition stamp :: jsstring where
  "stamp = js ''2025-10-01T00:00:00.000Z''"

text \<open>Namespaces whose ledger already holds one release, saved as the tests do.\<close>

definition ledger_1_0_0 :: "VersionIndex KVNamespace" where
  "ledger_1_0_0 = saveIndex cursor emptyKV
     \<lparr>versions = [withAdded release_1_0_0 stamp], updated = Some stamp\<rparr>"


text \<open>A stored metadata record, built 2025-10-01T02:57:15Z.\<close>

definition samplePackage :: PackageMetadata where
  "samplePackage =
     \<lparr>name = js ''cursor'', version = js ''1.7.28'', release = js ''1759287435'',
      arch = js ''x86_64'', summary = js ''The AI Code Editor.'',
      description = js ''Cursor is an AI-first coding environment.'',
      packager = js ''Cursor'', buildTime = 1759287435000,
      size_package = 104857600, size_installed = 314572800,
      checksum_type = js ''sha256'', checksum_value = js ''0123456789abcdef'',
      filename = js ''cursor-1.7.28-1759287435.el8.x86_64.rpm'',
      license = js ''Proprietary'', vendor = js ''Anysphere'',
      dependencies = Some [\<lparr>dep_name = js ''rpmlib(CompressedFileNames)'',
                             dep_version = Some (js ''3.0.4-1''),
                             dep_flags = Some (js ''LE'')\<rparr>]\<rparr>"

text \<open>
  A runtime whose clock reads \<open>t\<close>. The generator only applies the digest and the
  compressor, so any two functions on bytes serve to run it.
\<close>

definition runtimeAt :: "int \<Rightarrow> Runtime" where
  "runtimeAt t = \<lparr>digestSHA256 = take 32, gzip = rev, now = t\<rparr>"

section \<open>Properties of rpm-metadata.ts\<close>

lemma and_0x0F: "(n::int) AND 0x0F = n mod 16"
  using take_bit_eq_mod [of 4 n] by (simp add: take_bit_eq_mask mask_eq_exp_minus_1)

lemma flagMap_cases:
  "flagMap k = (if k = 2 then Some (js ''LT'') else if k = 4 then Some (js ''GT'')
     else if k = 8 then Some (js ''EQ'') else if k = 10 then Some (js ''LE'')
     else if k = 12 then Some (js ''GE'') else None)"
  by (simp add: flagMap_def)

lemma truthy_flagMap: "truthy (flagMap k) = (flagMap k \<noteq> None)"
  by (simp add: flagMap_cases truthy_def js_def)

lemma dep_flags_dependencyEntry:
  "dep_flags (dependencyEntry vs fs nm i) =
     (case at fs i of None \<Rightarrow> None | Some n \<Rightarrow> flagMap (n mod 16))"
proof (cases "at fs i")
  case None
  then show ?thesis by (simp add: dependencyEntry_def Let_def)
next
  case (Some n)
  have z: "flagMap 0 = None" by (simp add: flagMap_def)
  show ?thesis
  proof (cases "flagMap (n mod 16)")
    case None
    with Some z show ?thesis
      by (simp add: dependencyEntry_def Let_def and_0x0F truthy_flagMap)
  next
    case (Some f)
    with z have "n \<noteq> 0" by auto
    with Some \<open>at fs i = Some n\<close> show ?thesis
      by (simp add: dependencyEntry_def Let_def and_0x0F truthy_flagMap)
  qed
qed

lemma map_enumerate_upt:
  "map (\<lambda>(i, x). f x i) (enumerate 0 xs) = map (\<lambda>i. f (xs ! i) i) [0..<length xs]"
  by (rule nth_equalityI) (simp_all add: nth_enumerate_eq)

lemma dep_name_dependencyEntry: "dep_name (dependencyEntry vs fs nm i) = nm"
  by (simp add: dependencyEntry_def Let_def split: option.splits)

lemma names_extractDependencies:
  "map dep_name (extractDependencies pkg) = orEmpty (get_RequireName pkg)"
  by (simp add: extractDependencies_def Let_def map_enumerate_upt dep_name_dependencyEntry
      o_def map_nth)

lemma flags_extractDependencies:
  "map dep_flags (extractDependencies pkg) =
     map (\<lambda>i. case at (orEmpty (get_RequireFlags pkg)) i of
                 None \<Rightarrow> None | Some n \<Rightarrow> flagMap (n mod 16))
       [0..<length (orEmpty (get_RequireName pkg))]"
  by (simp add: extractDependencies_def Let_def map_enumerate_upt dep_flags_dependencyEntry o_def)

text \<open>
  C7. The dependencies that \<open>extractRpmMetadata\<close> returns are, in order, one for
  each required name, and the flag of the dependency at index \<open>i\<close> is read off the
  low four bits of the bitmask at index \<open>i\<close> (the bitmask modulo 16): 8 gives EQ,
  2 gives LT, 4 gives GT, 10 gives LE, 12 gives GE, and every other value, as a
  missing bitmask, gives no flag. In particular a header with the bitmasks 8, 10
  and 12 gives the flags EQ, LE and GE, and one with the bitmask 0 and an empty
  version gives a dependency with neither version nor flag. The same holds of the
  callback that builds one dependency.
\<close>

theorem flag_mapping:
  "map_sum id (map_option (map dep_name) \<circ> dependencies)
     (extractRpmMetadata (Inr pkg) (Inr (sha256Checksum, packageSize)) hashRejectsFirst rpmUrl fname)
   = Inr (Some (orEmpty (get_RequireName pkg)))
   \<and> map_sum id (map_option (map dep_flags) \<circ> dependencies)
     (extractRpmMetadata (Inr pkg) (Inr (sha256Checksum, packageSize)) hashRejectsFirst rpmUrl fname)
   = Inr (Some (map (\<lambda>i. case at (orEmpty (get_RequireFlags pkg)) i of
        None \<Rightarrow> None
      | Some n \<Rightarrow>
          if n mod 16 = 8 then Some (js ''EQ'')
          else if n mod 16 = 2 then Some (js ''LT'')
          else if n mod 16 = 4 then Some (js ''GT'')
          else if n mod 16 = 10 then Some (js ''LE'')
          else if n mod 16 = 12 then Some (js ''GE'')
          else None) [0..<length (orEmpty (get_RequireName pkg))]))
   \<and> map_sum id (map_option (map dep_flags) \<circ> dependencies)
     (extractRpmMetadata
        (Inr (pkg\<lparr>get_RequireName := Some [js ''a'', js ''b'', js ''c''],
                  get_RequireVersion := Some [js ''1.0'', js ''2.0'', js ''3.0''],
                  get_RequireFlags := Some [8, 10, 12]\<rparr>))
        (Inr (sha256Checksum, packageSize)) hashRejectsFirst rpmUrl fname)
   = Inr (Some [Some (js ''EQ''), Some (js ''LE''), Some (js ''GE'')])
   \<and> map_sum id dependencies
     (extractRpmMetadata
        (Inr (pkg\<lparr>get_RequireName := Some [js ''a''],
                  get_RequireVersion := Some [js ''''],
                  get_RequireFlags := Some [0]\<rparr>))
        (Inr (sha256Checksum, packageSize)) hashRejectsFirst rpmUrl fname)
   = Inr (Some [\<lparr>dep_name = js ''a'', dep_version = None, dep_flags = None\<rparr>])
   \<and> dep_flags (dependencyEntry vs fs nm i) =
     (case at fs i of
        None \<Rightarrow> None
      | Some n \<Rightarrow>
          if n mod 16 = 8 then Some (js ''EQ'')
          else if n mod 16 = 2 then Some (js ''LT'')
          else if n mod 16 = 4 then Some (js ''GT'')
          else if n mod 16 = 10 then Some (js ''LE'')
          else if n mod 16 = 12 then Some (js ''GE'')
          else None)
   \<and> dep_flags (dependencyEntry [js ''1.0''] [8] nm 0) = Some (js ''EQ'')
   \<and> dep_flags (dependencyEntry [js ''1.0''] [10] nm 0) = Some (js ''LE'')
   \<and> dep_flags (dependencyEntry [js ''1.0''] [12] nm 0) = Some (js ''GE'')
   \<and> dependencyEntry [js ''''] [0] nm 0 = \<lparr>dep_name = nm, dep_version = None, dep_flags = None\<rparr>"
proof -
  have link: "\<And>p g. map_sum id (map_option g \<circ> dependencies)
       (extractRpmMetadata (Inr p) (Inr (sha256Checksum, packageSize)) hashRejectsFirst rpmUrl fname)
     = Inr (Some (g (extractDependencies p)))"
    by (simp add: extractRpmMetadata_def)
  have n: "map_sum id (map_option (map dep_name) \<circ> dependencies)
     (extractRpmMetadata (Inr pkg) (Inr (sha256Checksum, packageSize)) hashRejectsFirst rpmUrl fname)
   = Inr (Some (orEmpty (get_RequireName pkg)))"
    by (simp only: link names_extractDependencies)
  have cases: "(\<lambda>i. case at (orEmpty (get_RequireFlags pkg)) i of
                 None \<Rightarrow> None | Some n \<Rightarrow> flagMap (n mod 16)) =
     (\<lambda>i. case at (orEmpty (get_RequireFlags pkg)) i of
        None \<Rightarrow> None
      | Some n \<Rightarrow>
          if n mod 16 = 8 then Some (js ''EQ'')
          else if n mod 16 = 2 then Some (js ''LT'')
          else if n mod 16 = 4 then Some (js ''GT'')
          else if n mod 16 = 10 then Some (js ''LE'')
          else if n mod 16 = 12 then Some (js ''GE'')
          else None)"
    by (rule ext) (simp add: flagMap_cases split: option.splits)
  have f: "map_sum id (map_option (map dep_flags) \<circ> dependencies)
     (extractRpmMetadata (Inr pkg) (Inr (sha256Checksum, packageSize)) hashRejectsFirst rpmUrl fname)
   = Inr (Some (map (\<lambda>i. case at (orEmpty (get_RequireFlags pkg)) i of
        None \<Rightarrow> None
      | Some n \<Rightarrow>
          if n mod 16 = 8 then Some (js ''EQ'')
          else if n mod 16 = 2 then Some (js ''LT'')
          else if n mod 16 = 4 then Some (js ''GT'')
          else if n mod 16 = 10 then Some (js ''LE'')
          else if n mod 16 = 12 then Some (js ''GE'')
          else None) [0..<length (orEmpty (get_RequireName pkg))]))"
    by (simp only: link flags_extractDependencies cases)
  have e1: "map_sum id (map_option (map dep_flags) \<circ> dependencies)
     (extractRpmMetadata
        (Inr (pkg\<lparr>get_RequireName := Some [js ''a'', js ''b'', js ''c''],
                  get_RequireVersion := Some [js ''1.0'', js ''2.0'', js ''3.0''],
                  get_RequireFlags := Some [8, 10, 12]\<rparr>))
        (Inr (sha256Checksum, packageSize)) hashRejectsFirst rpmUrl fname)
   = Inr (Some [Some (js ''EQ''), Some (js ''LE''), Some (js ''GE'')])"
    by (simp add: link flags_extractDependencies orEmpty_def at_def flagMap_cases upt_rec)
  have e2: "map_sum id dependencies
     (extractRpmMetadata
        (Inr (pkg\<lparr>get_RequireName := Some [js ''a''],
                  get_RequireVersion := Some [js ''''],
                  get_RequireFlags := Some [0]\<rparr>))
        (Inr (sha256Checksum, packageSize)) hashRejectsFirst rpmUrl fname)
   = Inr (Some [\<lparr>dep_name = js ''a'', dep_version = None, dep_flags = None\<rparr>])"
    by (simp add: extractRpmMetadata_def extractDependencies_def orEmpty_def enumerate_eq_zip
        dependencyEntry_def at_def truthy_def js_def)
  have a: "dep_flags (dependencyEntry vs fs nm i) =
     (case at fs i of
        None \<Rightarrow> None
      | Some n \<Rightarrow>
          if n mod 16 = 8 then Some (js ''EQ'')
          else if n mod 16 = 2 then Some (js ''LT'')
          else if n mod 16 = 4 then Some (js ''GT'')
          else if n mod 16 = 10 then Some (js ''LE'')
          else if n mod 16 = 12 then Some (js ''GE'')
          else None)"
    by (simp add: dep_flags_dependencyEntry flagMap_cases split: option.splits)
  have b: "dep_flags (dependencyEntry [js ''1.0''] [8] nm 0) = Some (js ''EQ'')"
    "dep_flags (dependencyEntry [js ''1.0''] [10] nm 0) = Some (js ''LE'')"
    "dep_flags (dependencyEntry [js ''1.0''] [12] nm 0) = Some (js ''GE'')"
    by (simp_all add: dep_flags_dependencyEntry flagMap_cases at_def)
  have c: "dependencyEntry [js ''''] [0] nm 0 =
      \<lparr>dep_name = nm, dep_version = None, dep_flags = None\<rparr>"
    by (simp add: dependencyEntry_def at_def truthy_def js_def orEmpty_def)
  from n f e1 e2 a b c show ?thesis by (intro conjI)
qed

text \<open>
  C1. The claim is that a dependency carries a flag only together with a non-empty
  version. The code sets the flag from the bitmask alone: a header whose requirement
  \<open>libfoo\<close> has the empty version string and the bitmask 8 gives a dependency with
  the flag EQ and no version.
\<close>

theorem flag_without_version:
  "map_sum id dependencies
     (extractRpmMetadata
        (Inr (pkg\<lparr>get_RequireName := Some [js ''libfoo''],
                  get_RequireVersion := Some [js ''''],
                  get_RequireFlags := Some [8]\<rparr>))
        (Inr (sha256Checksum, packageSize)) hashRejectsFirst rpmUrl fname)
   = Inr (Some [\<lparr>dep_name = js ''libfoo'', dep_version = None, dep_flags = Some (js ''EQ'')\<rparr>])"
  by (simp add: extractRpmMetadata_def extractDependencies_def orEmpty_def enumerate_eq_zip
      dependencyEntry_def at_def truthy_def js_def flagMap_def)

section \<open>Properties of metadata-manager.ts\<close>

lemma getAllMetadata_append:
  "getAllMetadata provider kv (xs @ ys) =
     getAllMetadata provider kv xs @ getAllMetadata provider kv ys"
  by (simp add: getAllMetadata_def)

lemma getAllMetadata_none:
  "list_all (\<lambda>(ver, rel). getMetadata provider kv ver rel = None) pre \<Longrightarrow>
   getAllMetadata provider kv pre = []"
  by (induction pre) (auto simp: getAllMetadata_def)

text \<open>
  C9. The bulk read returns exactly the stored records of the pairs that have one:
  it is the list of the stored values of the input pairs for which \<open>hasMetadata\<close>
  holds, its elements are the records stored under the key of some input pair, and
  it has one element for each such pair. A pair with nothing stored contributes
  nothing; the operation has no failing branch for it, since the missing entry is
  the \<open>null\<close> that \<open>kv.get\<close> returns and the filter drops.
\<close>

theorem getAllMetadata_exactly_stored:
  "getAllMetadata provider kv vs =
     map (\<lambda>(ver, rel). the (entries kv (getMetadataKey provider ver rel)))
       (filter (\<lambda>(ver, rel). hasMetadata provider kv ver rel) vs)
   \<and> set (getAllMetadata provider kv vs) =
       {m. \<exists>ver rel. (ver, rel) \<in> set vs \<and> entries kv (getMetadataKey provider ver rel) = Some m}
   \<and> length (getAllMetadata provider kv vs) =
       length (filter (\<lambda>(ver, rel). hasMetadata provider kv ver rel) vs)"
proof -
  have a: "getAllMetadata provider kv vs =
     map (\<lambda>(ver, rel). the (entries kv (getMetadataKey provider ver rel)))
       (filter (\<lambda>(ver, rel). hasMetadata provider kv ver rel) vs)"
    by (induction vs)
      (auto simp: getAllMetadata_def getMetadata_def hasMetadata_def kv_get_def)
  have b: "set (getAllMetadata provider kv vs) =
       {m. \<exists>ver rel. (ver, rel) \<in> set vs \<and> entries kv (getMetadataKey provider ver rel) = Some m}"
  proof (rule set_eqI)
    fix m
    have "m \<in> set (getAllMetadata provider kv vs) \<longleftrightarrow>
        (\<exists>p \<in> set vs. entries kv (getMetadataKey provider (fst p) (snd p)) = Some m)"
      unfolding a by (force simp: hasMetadata_def kv_get_def image_iff split_beta)
    then show "m \<in> set (getAllMetadata provider kv vs) \<longleftrightarrow>
        m \<in> {m. \<exists>ver rel. (ver, rel) \<in> set vs \<and>
                entries kv (getMetadataKey provider ver rel) = Some m}"
      by (simp add: Bex_def)
  qed
  from a b show ?thesis by simp
qed

text \<open>
  C10. The bulk read keeps the order of its input: the result for a concatenated
  input is the concatenation of the results, and when no pair of \<open>pre\<close> has stored
  metadata and the pair after it has the record \<open>m\<close>, the result for
  \<open>pre @ (ver, rel) # post\<close> starts with \<open>m\<close>, followed by the result for \<open>post\<close>.
\<close>

theorem getAllMetadata_order:
  assumes "list_all (\<lambda>(ver, rel). getMetadata provider kv ver rel = None) pre"
    and "getMetadata provider kv ver rel = Some m"
  shows "getAllMetadata provider kv (xs @ ys) =
           getAllMetadata provider kv xs @ getAllMetadata provider kv ys
       \<and> getAllMetadata provider kv (pre @ (ver, rel) # post) =
           m # getAllMetadata provider kv post"
proof -
  have "getAllMetadata provider kv [(ver, rel)] = [m]"
    using assms(2) by (simp add: getAllMetadata_def)
  then have "getAllMetadata provider kv (pre @ [(ver, rel)] @ post) =
           m # getAllMetadata provider kv post"
    using getAllMetadata_none [OF assms(1)] by (simp only: getAllMetadata_append) simp
  then show ?thesis by (simp add: getAllMetadata_append)
qed

text \<open>
  Witness for C10: release 1.1.0-bbb has no metadata yet, release 1.0.0-aaa has the
  record 7; the read of both returns the record of the second.
\<close>

theorem getAllMetadata_order_witness:
  "list_all (\<lambda>(ver, rel). getMetadata cursor
        (kv_put emptyKV (getMetadataKey cursor (js ''1.0.0'') (js ''aaa'')) (7::nat)) ver rel = None)
     [(js ''1.1.0'', js ''bbb'')]
   \<and> getMetadata cursor
        (kv_put emptyKV (getMetadataKey cursor (js ''1.0.0'') (js ''aaa'')) (7::nat))
        (js ''1.0.0'') (js ''aaa'') = Some 7
   \<and> getAllMetadata cursor
        (kv_put emptyKV (getMetadataKey cursor (js ''1.0.0'') (js ''aaa'')) (7::nat))
        ([(js ''1.1.0'', js ''bbb'')] @ (js ''1.0.0'', js ''aaa'') # []) = [7]"
proof -
  let ?kv = "kv_put emptyKV (getMetadataKey cursor (js ''1.0.0'') (js ''aaa'')) (7::nat)"
  have h1: "list_all (\<lambda>(ver, rel). getMetadata cursor ?kv ver rel = None)
      [(js ''1.1.0'', js ''bbb'')]"
    by (simp add: getMetadata_def kv_get_def kv_put_def emptyKV_def getMetadataKey_def
        cursor_def js_def)
  have h2: "getMetadata cursor ?kv (js ''1.0.0'') (js ''aaa'') = Some 7"
    by (simp add: getMetadata_def kv_get_def kv_put_def)
  have e: "getAllMetadata cursor ?kv [] = []"
    by (simp add: getAllMetadata_def)
  from getAllMetadata_order [OF h1 h2, of "[]" "[]" "[]"] h1 h2 e show ?thesis by simp
qed

section \<open>Properties of version-discovery.ts\<close>

lemma getIndex_saveIndex: "getIndex provider (saveIndex provider kv index) = index"
  by (simp add: getIndex_def saveIndex_def kv_get_def kv_put_def)


lemma getAllVersions_saveIndex:
  "getAllVersions provider (saveIndex provider kv index) = versions index"
  by (simp add: getAllVersions_def getIndex_saveIndex)

lemma getAllVersions_emptyKV: "getAllVersions provider emptyKV = []"
  by (simp add: getAllVersions_def getIndex_def kv_get_def emptyKV_def)

lemma getLatest_front: "getLatest provider kv = at (getAllVersions provider kv) 0"
  by (simp add: getLatest_def getAllVersions_def)

lemma versionKey_withAdded: "versionKey (withAdded latest t) = versionKey latest"
  by (simp add: versionKey_def withAdded_def)


lemma checkAndUpdate_new:
  assumes "\<not> list_ex (\<lambda>v. versionKey v = versionKey latest) (getAllVersions provider kv)"
  shows "checkAndUpdate provider (Inr latest) t1 t2 kv =
     (Inr True, saveIndex provider kv
        \<lparr>versions = withAdded latest t1 # getAllVersions provider kv, updated = Some t2\<rparr>)"
  using assms
  by (cases "getIndex provider kv") (simp add: checkAndUpdate_def getAllVersions_def Let_def)


lemma record_two:
  assumes "\<not> list_ex (\<lambda>v. versionKey v = versionKey a) (getAllVersions provider kv)"
    and "\<not> list_ex (\<lambda>v. versionKey v = versionKey b) (getAllVersions provider kv)"
    and "versionKey a \<noteq> versionKey b"
  shows "fst (checkAndUpdate provider (Inr a) t1 t2 kv) = Inr True"
    and "fst (checkAndUpdate provider (Inr b) t3 t4
            (snd (checkAndUpdate provider (Inr a) t1 t2 kv))) = Inr True"
    and "getAllVersions provider
           (snd (checkAndUpdate provider (Inr b) t3 t4
              (snd (checkAndUpdate provider (Inr a) t1 t2 kv)))) =
         withAdded b t3 # withAdded a t1 # getAllVersions provider kv"
proof -
  let ?kv1 = "snd (checkAndUpdate provider (Inr a) t1 t2 kv)"
  note first = checkAndUpdate_new [OF assms(1), of t1 t2]
  show "fst (checkAndUpdate provider (Inr a) t1 t2 kv) = Inr True"
    by (simp add: first)
  have all1: "getAllVersions provider ?kv1 = withAdded a t1 # getAllVersions provider kv"
    by (simp add: first getAllVersions_saveIndex)
  have "\<not> list_ex (\<lambda>v. versionKey v = versionKey b) (getAllVersions provider ?kv1)"
    using assms(2,3) by (simp add: all1 versionKey_withAdded)
  note second = checkAndUpdate_new [OF this, of t3 t4]
  show "fst (checkAndUpdate provider (Inr b) t3 t4 ?kv1) = Inr True"
    by (simp add: second)
  show "getAllVersions provider (snd (checkAndUpdate provider (Inr b) t3 t4 ?kv1)) =
         withAdded b t3 # withAdded a t1 # getAllVersions provider kv"
    by (simp add: second getAllVersions_saveIndex all1)
qed

lemma key_1_0_0: "versionKey release_1_0_0 = js ''1.0.0-1000000000''"
  by (simp add: versionKey_def release_1_0_0_def js_def)

lemma key_1_7_27: "versionKey release_1_7_27 = js ''1.7.27-1759000000''"
  by (simp add: versionKey_def release_1_7_27_def js_def)

lemma key_1_7_28: "versionKey release_1_7_28 = js ''1.7.28-1759287435''"
  by (simp add: versionKey_def release_1_7_28_def js_def)

lemma keys_differ:
  "js ''1.7.27-1759000000'' \<noteq> js ''1.0.0-1000000000''"
  "js ''1.7.28-1759287435'' \<noteq> js ''1.0.0-1000000000''"
  "js ''1.7.27-1759000000'' \<noteq> js ''1.7.28-1759287435''"
  by (simp_all add: js_def)

text \<open>
  The identity key does not determine the pair: version \<open>1-2\<close> with release \<open>3\<close> and
  version \<open>1\<close> with release \<open>2-3\<close> have the same key, so the ledger tells releases
  apart by their keys, not by their fields.
\<close>

lemma versionKey_not_injective:
  "versionKey \<lparr>vi_version = js ''1-2'', vi_release = js ''3'', vi_url = u, vi_filename = f\<rparr> =
   versionKey \<lparr>vi_version = js ''1'', vi_release = js ''2-3'', vi_url = u, vi_filename = f\<rparr>"
  by (simp add: versionKey_def js_def)

text \<open>
  C6. When \<open>fetchLatestVersion\<close> throws, \<open>checkAndUpdate\<close> throws the same error and
  the namespace is as before the call: no write is counted and the ledger is the
  same.
\<close>

theorem checkAndUpdate_provider_failure:
  "checkAndUpdate provider (Inl e) t1 t2 kv = (Inl e, kv)
   \<and> putCount (snd (checkAndUpdate provider (Inl e) t1 t2 kv)) = putCount kv
   \<and> getAllVersions provider (snd (checkAndUpdate provider (Inl e) t1 t2 kv)) =
       getAllVersions provider kv"
  by (simp add: checkAndUpdate_def)




text \<open>
  C5, as amended. For every ledger, when neither the identity key of release \<open>a\<close>
  nor that of release \<open>b\<close> is in it and the two keys differ, recording \<open>a\<close> and then
  \<open>b\<close> succeeds both times, after which \<open>getAllVersions\<close> returns \<open>b\<close>, then \<open>a\<close>
  (each with its time stamp), then the entries the ledger held before, in their
  order, and \<open>getLatest\<close> returns \<open>b\<close>. \<open>getLatest\<close> returns \<open>null\<close> exactly when the
  ledger is empty.
\<close>

theorem prepended_newest_first:
  assumes "\<not> list_ex (\<lambda>v. versionKey v = versionKey a) (getAllVersions provider kv)"
    and "\<not> list_ex (\<lambda>v. versionKey v = versionKey b) (getAllVersions provider kv)"
    and "versionKey a \<noteq> versionKey b"
  shows "fst (checkAndUpdate provider (Inr a) t1 t2 kv) = Inr True
    \<and> fst (checkAndUpdate provider (Inr b) t3 t4
            (snd (checkAndUpdate provider (Inr a) t1 t2 kv))) = Inr True
    \<and> getAllVersions provider
           (snd (checkAndUpdate provider (Inr b) t3 t4
              (snd (checkAndUpdate provider (Inr a) t1 t2 kv)))) =
         withAdded b t3 # withAdded a t1 # getAllVersions provider kv
    \<and> getLatest provider
           (snd (checkAndUpdate provider (Inr b) t3 t4
              (snd (checkAndUpdate provider (Inr a) t1 t2 kv)))) =
         Some (withAdded b t3)
    \<and> (getLatest provider kv = None \<longleftrightarrow> getAllVersions provider kv = [])"
proof -
  note r = record_two [OF assms]
  have "getLatest provider
           (snd (checkAndUpdate provider (Inr b) t3 t4
              (snd (checkAndUpdate provider (Inr a) t1 t2 kv)))) =
         Some (withAdded b t3)"
    by (simp only: getLatest_front r(3)) (simp add: at_def)
  moreover have "getLatest provider kv = None \<longleftrightarrow> getAllVersions provider kv = []"
    by (simp add: getLatest_front at_def)
  ultimately show ?thesis using r by (intro conjI)
qed

text \<open>
  Witness for C5: releases 1.7.27 and then 1.7.28 recorded in an empty namespace;
  the ledger is then exactly the two, the later one first.
\<close>

theorem prepended_newest_first_witness:
  "\<not> list_ex (\<lambda>v. versionKey v = versionKey release_1_7_27) (getAllVersions cursor emptyKV)
   \<and> \<not> list_ex (\<lambda>v. versionKey v = versionKey release_1_7_28) (getAllVersions cursor emptyKV)
   \<and> versionKey release_1_7_27 \<noteq> versionKey release_1_7_28
   \<and> getAllVersions cursor
        (snd (checkAndUpdate cursor (Inr release_1_7_28) stamp stamp
           (snd (checkAndUpdate cursor (Inr release_1_7_27) stamp stamp emptyKV)))) =
      [withAdded release_1_7_28 stamp, withAdded release_1_7_27 stamp]
   \<and> getLatest cursor
        (snd (checkAndUpdate cursor (Inr release_1_7_28) stamp stamp
           (snd (checkAndUpdate cursor (Inr release_1_7_27) stamp stamp emptyKV)))) =
      Some (withAdded release_1_7_28 stamp)"
proof -
  have h1: "\<not> list_ex (\<lambda>v. versionKey v = versionKey release_1_7_27)
      (getAllVersions cursor emptyKV)"
    and h2: "\<not> list_ex (\<lambda>v. versionKey v = versionKey release_1_7_28)
      (getAllVersions cursor emptyKV)"
    by (simp_all add: getAllVersions_emptyKV)
  have h3: "versionKey release_1_7_27 \<noteq> versionKey release_1_7_28"
    by (simp only: key_1_7_27 key_1_7_28 keys_differ not_False_eq_True)
  from prepended_newest_first [OF h1 h2 h3, of stamp stamp stamp stamp] h1 h2 h3
  show ?thesis by (simp add: getAllVersions_emptyKV)
qed

text \<open>
  C5 as stated fails for a ledger that is not empty: after recording 1.7.27 and
  then 1.7.28 in a ledger that holds 1.0.0, \<open>getAllVersions\<close> returns three
  entries, not the two recorded ones alone.
\<close>

theorem nonempty_ledger_keeps_old_entries:
  "getAllVersions cursor
     (snd (checkAndUpdate cursor (Inr release_1_7_28) stamp stamp
        (snd (checkAndUpdate cursor (Inr release_1_7_27) stamp stamp ledger_1_0_0)))) =
   [withAdded release_1_7_28 stamp, withAdded release_1_7_27 stamp, withAdded release_1_0_0 stamp]
   \<and> getAllVersions cursor
     (snd (checkAndUpdate cursor (Inr release_1_7_28) stamp stamp
        (snd (checkAndUpdate cursor (Inr release_1_7_27) stamp stamp ledger_1_0_0)))) \<noteq>
   [withAdded release_1_7_28 stamp, withAdded release_1_7_27 stamp]"
proof -
  have old: "getAllVersions cursor ledger_1_0_0 = [withAdded release_1_0_0 stamp]"
    by (simp add: ledger_1_0_0_def getAllVersions_saveIndex)
  have h1: "\<not> list_ex (\<lambda>v. versionKey v = versionKey release_1_7_27)
      (getAllVersions cursor ledger_1_0_0)"
    using keys_differ(1) by (simp add: old versionKey_withAdded key_1_0_0 key_1_7_27 eq_commute)
  have h2: "\<not> list_ex (\<lambda>v. versionKey v = versionKey release_1_7_28)
      (getAllVersions cursor ledger_1_0_0)"
    using keys_differ(2) by (simp add: old versionKey_withAdded key_1_0_0 key_1_7_28 eq_commute)
  have h3: "versionKey release_1_7_27 \<noteq> versionKey release_1_7_28"
    by (simp only: key_1_7_27 key_1_7_28 keys_differ not_False_eq_True)
  show ?thesis
    by (simp add: record_two(3) [OF h1 h2 h3] old)
qed

section \<open>Properties of repo-metadata.ts\<close>

lemma foldl_append_concat: "foldl (\<lambda>x p. x @ f p) acc ps = acc @ concat (map f ps)"
  by (induction ps arbitrary: acc) simp_all

lemma generatePrimaryXml_entries:
  \<open>generatePrimaryXml packages timestamp =
     js ''<?xml version="1.0" encoding="UTF-8"?>\<newline>''
     @ js ''<metadata xmlns="http://linux.duke.edu/metadata/common" xmlns:rpm="http://linux.duke.edu/metadata/rpm" packages="''
     @ showNum (int (length packages)) @ js ''">\<newline>''
     @ concat (map (\<lambda>pkg. primaryBeforeTime pkg @ primaryTime timestamp pkg
                       @ primaryAfterTime pkg) packages)
     @ js ''</metadata>\<newline>''\<close>
  by (simp add: generatePrimaryXml_def Let_def foldl_append_concat)

lemma generateRepoMetadata_cong:
  assumes "digestSHA256 rt' = digestSHA256 rt" and "gzip rt' = gzip rt"
  shows "generateRepoMetadata rt' packages = generateRepoMetadata rt packages"
  using assms by (simp add: generateRepoMetadata_def calculateSha256_def gzipCompress_def)

lemma repomd_prefix:
  "prefix (repomdHead (buildTimestamp packages)) (repomd_xml (generateRepoMetadata rt packages))"
  by (simp add: generateRepoMetadata_def Let_def generateRepomdXml_def)

lemma openSize_primary:
  "openSize (primary (generateRepoMetadata rt packages)) =
     length (xml (primary (generateRepoMetadata rt packages)))"
  by (simp add: generateRepoMetadata_def Let_def)

subsection \<open>Code units and bytes\<close>

lemma length_utf8_pos: "1 \<le> length (utf8 cp)"
  by (simp add: utf8_def)

lemma length_utf8_one: "length (utf8 cp) = 1 \<longleftrightarrow> cp < 0x80"
  by (simp add: utf8_def)

lemma scalar_ascii: "scalar c < 0x80 \<longleftrightarrow> unat c < 0x80"
  by (auto simp: scalar_def isHigh_def isLow_def)

lemma length_textEncode_ge: "length s \<le> length (textEncode s)"
proof (induction s rule: textEncode.induct)
  case 1
  show ?case by simp
next
  case (2 c)
  show ?case using length_utf8_pos [of "scalar c"] by simp
next
  case (3 c d cs)
  show ?case
  proof (cases "isHigh c \<and> isLow d")
    case True
    then show ?thesis using 3(1) [OF True] by (simp add: utf8_def)
  next
    case False
    then have "textEncode (c # d # cs) = utf8 (scalar c) @ textEncode (d # cs)"
      by auto
    then show ?thesis using 3(2) [OF False] length_utf8_pos [of "scalar c"] by simp
  qed
qed

text \<open>A string has as many UTF-8 bytes as code units exactly when it is ASCII.\<close>

lemma length_textEncode_eq:
  "length (textEncode s) = length s \<longleftrightarrow> list_all (\<lambda>c. unat c < 0x80) s"
proof (induction s rule: textEncode.induct)
  case 1
  show ?case by simp
next
  case (2 c)
  show ?case using length_utf8_one [of "scalar c"] by (simp add: scalar_ascii)
next
  case (3 c d cs)
  show ?case
  proof (cases "isHigh c \<and> isLow d")
    case True
    then have "\<not> unat c < 0x80" by (simp add: isHigh_def)
    moreover have "length (textEncode (c # d # cs)) > length (c # d # cs)"
      using True length_textEncode_ge [of cs] by (simp add: utf8_def)
    ultimately show ?thesis by simp
  next
    case False
    have ge: "length (d # cs) \<le> length (textEncode (d # cs))"
      by (rule length_textEncode_ge)
    have pos: "1 \<le> length (utf8 (scalar c))" by (rule length_utf8_pos)
    have "length (textEncode (c # d # cs)) =
        length (utf8 (scalar c)) + length (textEncode (d # cs))"
      using False by auto
    then have step: "length (textEncode (c # d # cs)) = length (c # d # cs) \<longleftrightarrow>
        length (utf8 (scalar c)) = 1 \<and> length (textEncode (d # cs)) = length (d # cs)"
      using ge pos by auto
    have one: "length (utf8 (scalar c)) = 1 \<longleftrightarrow> unat c < 0x80"
      by (simp only: length_utf8_one scalar_ascii)
    have ih: "length (textEncode (d # cs)) = length (d # cs) \<longleftrightarrow>
        list_all (\<lambda>c. unat c < 0x80) (d # cs)"
      by (rule 3(2) [OF False])
    have unfold: "list_all (\<lambda>c. unat c < 0x80) (c # d # cs) \<longleftrightarrow>
        unat c < 0x80 \<and> list_all (\<lambda>c. unat c < 0x80) (d # cs)"
      by simp
    from step one ih unfold show ?thesis by blast
  qed
qed

lemma escapeXml_e_acute: "escapeXml [0xE9] = [0xE9]"
  by (simp add: escapeXml_def replaceAll_def)

subsection \<open>The claims\<close>

text \<open>
  C8. For the empty metadata list the primary, filelists and other documents are
  the XML declaration followed by a root element with \<open>packages="0"\<close> and no
  \<open>package\<close> element, and repomd.xml starts with its root element and the revision 0.
\<close>

theorem empty_list_documents:
  \<open>xml (primary (generateRepoMetadata rt [])) =
     js ''<?xml version="1.0" encoding="UTF-8"?>\<newline><metadata xmlns="http://linux.duke.edu/metadata/common" xmlns:rpm="http://linux.duke.edu/metadata/rpm" packages="0">\<newline></metadata>\<newline>''
   \<and> xml (filelists (generateRepoMetadata rt [])) =
     js ''<?xml version="1.0" encoding="UTF-8"?>\<newline><filelists xmlns="http://linux.duke.edu/metadata/filelists" packages="0">\<newline></filelists>\<newline>''
   \<and> xml (other (generateRepoMetadata rt [])) =
     js ''<?xml version="1.0" encoding="UTF-8"?>\<newline><otherdata xmlns="http://linux.duke.edu/metadata/other" packages="0">\<newline></otherdata>\<newline>''
   \<and> prefix
       (js ''<?xml version="1.0" encoding="UTF-8"?>\<newline><repomd xmlns="http://linux.duke.edu/metadata/repo" xmlns:rpm="http://linux.duke.edu/metadata/rpm">\<newline>  <revision>0</revision>\<newline>'')
       (repomd_xml (generateRepoMetadata rt []))\<close>
proof -
  have p: \<open>xml (primary (generateRepoMetadata rt [])) =
     js ''<?xml version="1.0" encoding="UTF-8"?>\<newline><metadata xmlns="http://linux.duke.edu/metadata/common" xmlns:rpm="http://linux.duke.edu/metadata/rpm" packages="0">\<newline></metadata>\<newline>''\<close>
    by (simp add: generateRepoMetadata_def Let_def generatePrimaryXml_def showNum_def js_def)
  have f: \<open>xml (filelists (generateRepoMetadata rt [])) =
     js ''<?xml version="1.0" encoding="UTF-8"?>\<newline><filelists xmlns="http://linux.duke.edu/metadata/filelists" packages="0">\<newline></filelists>\<newline>''\<close>
    by (simp add: generateRepoMetadata_def Let_def generateFilelistsXml_def showNum_def js_def)
  have ot: \<open>xml (other (generateRepoMetadata rt [])) =
     js ''<?xml version="1.0" encoding="UTF-8"?>\<newline><otherdata xmlns="http://linux.duke.edu/metadata/other" packages="0">\<newline></otherdata>\<newline>''\<close>
    by (simp add: generateRepoMetadata_def Let_def generateOtherXml_def showNum_def js_def)
  have h: \<open>repomdHead 0 = js ''<?xml version="1.0" encoding="UTF-8"?>\<newline><repomd xmlns="http://linux.duke.edu/metadata/repo" xmlns:rpm="http://linux.duke.edu/metadata/rpm">\<newline>  <revision>0</revision>\<newline>''\<close>
    by (simp add: repomdHead_def showNum_def js_def)
  have "prefix (repomdHead 0) (repomd_xml (generateRepoMetadata rt []))"
    using repomd_prefix [of "[]" rt] by (simp add: buildTimestamp_def)
  with p f ot h show ?thesis by simp
qed

text \<open>
  C2. Two runs of the generator on the same list, on runtimes that have the same
  digest and the same compressor but may read different clocks, return the same
  bundle: the four documents, the compressed bytes and the checksums. For a
  non-empty list, repomd.xml starts with the revision equal to the first package's
  build time in whole seconds, and every package entry of the primary document
  carries that same value as its \<open>file\<close> time, next to its own \<open>build\<close> time.
\<close>

theorem generateRepoMetadata_deterministic:
  assumes "digestSHA256 rt' = digestSHA256 rt" and "gzip rt' = gzip rt"
  shows \<open>generateRepoMetadata rt' packages = generateRepoMetadata rt packages
    \<and> prefix
        (js ''<?xml version="1.0" encoding="UTF-8"?>\<newline>''
         @ js ''<repomd xmlns="http://linux.duke.edu/metadata/repo" xmlns:rpm="http://linux.duke.edu/metadata/rpm">\<newline>''
         @ js ''  <revision>'' @ showNum (buildTime p div 1000) @ js ''</revision>\<newline>'')
        (repomd_xml (generateRepoMetadata rt (p # ps)))
    \<and> xml (primary (generateRepoMetadata rt (p # ps))) =
        js ''<?xml version="1.0" encoding="UTF-8"?>\<newline>''
        @ js ''<metadata xmlns="http://linux.duke.edu/metadata/common" xmlns:rpm="http://linux.duke.edu/metadata/rpm" packages="''
        @ showNum (int (length (p # ps))) @ js ''">\<newline>''
        @ concat (map (\<lambda>pkg. primaryBeforeTime pkg
                          @ js ''    <time file="'' @ showNum (buildTime p div 1000)
                          @ js ''" build="'' @ showNum (buildTime pkg div 1000) @ js ''"/>\<newline>''
                          @ primaryAfterTime pkg) (p # ps))
        @ js ''</metadata>\<newline>''\<close>
proof -
  have ts: "buildTimestamp (p # ps) = buildTime p div 1000"
    by (simp add: buildTimestamp_def)
  have a: "generateRepoMetadata rt' packages = generateRepoMetadata rt packages"
    using assms by (rule generateRepoMetadata_cong)
  have b: \<open>prefix
        (js ''<?xml version="1.0" encoding="UTF-8"?>\<newline>''
         @ js ''<repomd xmlns="http://linux.duke.edu/metadata/repo" xmlns:rpm="http://linux.duke.edu/metadata/rpm">\<newline>''
         @ js ''  <revision>'' @ showNum (buildTime p div 1000) @ js ''</revision>\<newline>'')
        (repomd_xml (generateRepoMetadata rt (p # ps)))\<close>
    using repomd_prefix [of "p # ps" rt] by (simp only: ts repomdHead_def)
  have "xml (primary (generateRepoMetadata rt (p # ps))) =
      generatePrimaryXml (p # ps) (buildTime p div 1000)"
    by (simp add: generateRepoMetadata_def Let_def ts)
  then have c: \<open>xml (primary (generateRepoMetadata rt (p # ps))) =
        js ''<?xml version="1.0" encoding="UTF-8"?>\<newline>''
        @ js ''<metadata xmlns="http://linux.duke.edu/metadata/common" xmlns:rpm="http://linux.duke.edu/metadata/rpm" packages="''
        @ showNum (int (length (p # ps))) @ js ''">\<newline>''
        @ concat (map (\<lambda>pkg. primaryBeforeTime pkg
                          @ js ''    <time file="'' @ showNum (buildTime p div 1000)
                          @ js ''" build="'' @ showNum (buildTime pkg div 1000) @ js ''"/>\<newline>''
                          @ primaryAfterTime pkg) (p # ps))
        @ js ''</metadata>\<newline>''\<close>
    by (simp only: generatePrimaryXml_entries primaryTime_def append_assoc)
  from a b c show ?thesis by (intro conjI)
qed

text \<open>
  Witness for C2: the sample package generated at two different clock readings
  gives the same bundle, with the revision 1759287435.
\<close>

theorem generateRepoMetadata_deterministic_witness:
  \<open>digestSHA256 (runtimeAt 1759300000000) = digestSHA256 (runtimeAt 1759400000000)
   \<and> gzip (runtimeAt 1759300000000) = gzip (runtimeAt 1759400000000)
   \<and> now (runtimeAt 1759300000000) \<noteq> now (runtimeAt 1759400000000)
   \<and> generateRepoMetadata (runtimeAt 1759300000000) [samplePackage] =
       generateRepoMetadata (runtimeAt 1759400000000) [samplePackage]
   \<and> prefix
        (js ''<?xml version="1.0" encoding="UTF-8"?>\<newline><repomd xmlns="http://linux.duke.edu/metadata/repo" xmlns:rpm="http://linux.duke.edu/metadata/rpm">\<newline>  <revision>1759287435</revision>\<newline>'')
        (repomd_xml (generateRepoMetadata (runtimeAt 1759400000000) [samplePackage]))\<close>
proof -
  have h1: "digestSHA256 (runtimeAt 1759300000000) = digestSHA256 (runtimeAt 1759400000000)"
    and h2: "gzip (runtimeAt 1759300000000) = gzip (runtimeAt 1759400000000)"
    and h3: "now (runtimeAt 1759300000000) \<noteq> now (runtimeAt 1759400000000)"
    by (simp_all add: runtimeAt_def)
  have ts: "buildTime samplePackage div 1000 = 1759287435"
    by (simp add: samplePackage_def)
  have d: "showNum 1759287435 = js ''1759287435''"
    by (simp add: showNum_def js_def)
  note t = generateRepoMetadata_deterministic [OF h1 h2, of "[samplePackage]" samplePackage "[]"]
  from t have a: "generateRepoMetadata (runtimeAt 1759300000000) [samplePackage] =
       generateRepoMetadata (runtimeAt 1759400000000) [samplePackage]"
    by (rule conjunct1)
  from t have \<open>prefix
        (js ''<?xml version="1.0" encoding="UTF-8"?>\<newline>''
         @ js ''<repomd xmlns="http://linux.duke.edu/metadata/repo" xmlns:rpm="http://linux.duke.edu/metadata/rpm">\<newline>''
         @ js ''  <revision>'' @ showNum (buildTime samplePackage div 1000) @ js ''</revision>\<newline>'')
        (repomd_xml (generateRepoMetadata (runtimeAt 1759400000000) [samplePackage]))\<close>
    by (rule conjunct2 [THEN conjunct1])
  then have b: \<open>prefix
        (js ''<?xml version="1.0" encoding="UTF-8"?>\<newline><repomd xmlns="http://linux.duke.edu/metadata/repo" xmlns:rpm="http://linux.duke.edu/metadata/rpm">\<newline>  <revision>1759287435</revision>\<newline>'')
        (repomd_xml (generateRepoMetadata (runtimeAt 1759400000000) [samplePackage]))\<close>
    by (simp only: ts d) (simp add: js_def)
  from h1 h2 h3 a b show ?thesis by (intro conjI)
qed

text \<open>
  C3. The claim is that \<open>openSize\<close> is the byte length of the uncompressed document
  also when the text is not ASCII. The code takes \<open>xml.length\<close>, the number of UTF-16
  code units: for a package whose description is the one character U+00E9, the
  declared open-size of the primary document is less than the number of bytes that
  are hashed and compressed.
\<close>

theorem openSize_counts_code_units:
  "openSize (primary (generateRepoMetadata rt [pkg\<lparr>description := [0xE9]\<rparr>]))
     < length (textEncode (xml (primary (generateRepoMetadata rt [pkg\<lparr>description := [0xE9]\<rparr>]))))"
proof -
  let ?x = "xml (primary (generateRepoMetadata rt [pkg\<lparr>description := [0xE9]\<rparr>]))"
  have "\<not> list_all (\<lambda>c. unat c < 0x80) ?x"
    by (simp add: generateRepoMetadata_def Let_def generatePrimaryXml_entries
        primaryBeforeTime_def escapeXml_e_acute)
  then have "length (textEncode ?x) \<noteq> length ?x"
    by (simp only: length_textEncode_eq not_False_eq_True)
  with length_textEncode_ge [of ?x] show ?thesis
    by (simp only: openSize_primary)
qed

end
